theory Spec2Isabelle
  imports Main
begin

section \<open>Exceptions\<close>

text \<open>
  The wallet reports every failure by raising a Python exception. An exception is
  modelled as a value. The class of an exception is what an \<^verbatim>\<open>except\<close> clause of a
  caller can branch on without parsing the message.

  An exception raised inside one of the external libraries (bitcoinlib, cryptography,
  json) is its class and its text. An exception that the wallet code raises itself is a
  \<^verbatim>\<open>ValueError\<close> or a \<^verbatim>\<open>FileNotFoundError\<close> with a message, kept as its template (one
  constructor per f-string of the source) together with the values the f-string
  interpolates. A library exception that the wallet code does not catch propagates to
  the caller unchanged.
\<close>

datatype exn_class =
    ValueError_class | FileNotFoundError_class | ScriptError_class | TransactionError_class
  | InvalidToken_class | JSONDecodeError_class | UnicodeDecodeError_class | TypeError_class

datatype lib_exn = Lib_exn exn_class string

datatype message =
    No_UTXOs_to_select
      \<comment> \<open>\<^verbatim>\<open>No UTXOs provided to select from.\<close>\<close>
  | UTXO_missing_keys nat
      \<comment> \<open>\<^verbatim>\<open>UTXO at index {i} is missing one of required keys\<close>\<close>
  | Insufficient_funds int int nat int
      \<comment> \<open>\<^verbatim>\<open>Insufficient funds. Need {..} satoshis, but only {..} available
          from selected UTXOs ({..} UTXOs). Final estimated fee: {..}\<close>\<close>
  | Network_not_recognized string
      \<comment> \<open>\<^verbatim>\<open>Network name '{network_name}' is not recognized by bitcoinlib\<close>\<close>
  | No_UTXOs_to_spend
      \<comment> \<open>\<^verbatim>\<open>No UTXOs provided to spend.\<close>\<close>
  | Spend_UTXO_missing_keys
      \<comment> \<open>\<^verbatim>\<open>One or more UTXOs in utxos_to_spend is missing required keys\<close>\<close>
  | Invalid_address string lib_exn
      \<comment> \<open>\<^verbatim>\<open>Invalid recipient or change address for network {..}. Error: {e}\<close>\<close>
  | Insufficient_preliminary int int int int
      \<comment> \<open>\<^verbatim>\<open>Insufficient funds after preliminary fee calculation. Total input: {..}
          Target: {..} Estimated fee: {..} Required: {..}\<close>\<close>
  | Negative_change int
      \<comment> \<open>\<^verbatim>\<open>Negative change ({change_sats} sats). Inputs less than outputs + fee.\<close>\<close>
  | Mismatch_deficit int int int
      \<comment> \<open>\<^verbatim>\<open>Mismatch: Total input {..} != sum of outputs {..} + fee {..}. Deficit.\<close>\<close>
  | Failed_to_decrypt lib_exn
      \<comment> \<open>\<^verbatim>\<open>Failed to decrypt key. Incorrect password or corrupted file. Error: {e}\<close>\<close>
  | Wallet_file_not_found string
      \<comment> \<open>\<^verbatim>\<open>Wallet file not found: {filepath}\<close>\<close>

datatype exn =
    ValueError message
  | FileNotFoundError message
  | Propagated lib_exn

fun class_of :: "exn \<Rightarrow> exn_class" where
  "class_of (ValueError m) = ValueError_class"
| "class_of (FileNotFoundError m) = FileNotFoundError_class"
| "class_of (Propagated (Lib_exn c text)) = c"

section \<open>Decimal amounts and satoshis\<close>

text \<open>
  Amounts in BTC are values of Python's \<^verbatim>\<open>decimal.Decimal\<close>. A finite Decimal is a sign,
  a coefficient and an exponent: \<open>Decimal s c e\<close> stands for \<open>(-1)^s * c * 10^e\<close>. The
  special values NaN and Infinity, which no amount of a UTXO or of a payment takes, are
  not values of this type, and exponents are taken within the range of the arithmetic
  context (no Overflow signal).

  \<^verbatim>\<open>btc_to_satoshi\<close> is \<^verbatim>\<open>int(btc_amount * SATOSHIS_PER_BTC)\<close>. The product is computed
  in the default context: exact, then rounded half-even to the context's precision of 28
  significant digits whenever the exact coefficient is longer; \<^verbatim>\<open>int\<close> then truncates
  towards zero.
\<close>

datatype decimal = Decimal bool nat int

fun num_digits :: "nat \<Rightarrow> nat" where
  "num_digits n = (if n < 10 then 1 else Suc (num_digits (n div 10)))"

declare num_digits.simps [simp del]

definition context_prec :: nat where
  "context_prec = 28"

definition round_half_even :: "nat \<Rightarrow> nat \<Rightarrow> nat" where
  "round_half_even c k =
     (let q = c div 10 ^ k; r = c mod 10 ^ k
      in if 2 * r > 10 ^ k \<or> (2 * r = 10 ^ k \<and> odd q) then q + 1 else q)"

fun decimal_fix :: "decimal \<Rightarrow> decimal" where
  "decimal_fix (Decimal s c e) =
     (if c = 0 then Decimal s 0 e
      else if num_digits c > context_prec then
        (let k = num_digits c - context_prec;
             c' = round_half_even c k
         in if num_digits c' > context_prec
            then Decimal s (c' div 10) (e + int k + 1)
            else Decimal s c' (e + int k))
      else Decimal s c e)"

fun decimal_mul :: "decimal \<Rightarrow> decimal \<Rightarrow> decimal" where
  "decimal_mul (Decimal s1 c1 e1) (Decimal s2 c2 e2) =
     decimal_fix (Decimal (s1 \<noteq> s2) (c1 * c2) (e1 + e2))"

fun decimal_to_int :: "decimal \<Rightarrow> int" where
  "decimal_to_int (Decimal s c e) =
     (let m = (if e \<ge> 0 then int c * 10 ^ nat e else int (c div 10 ^ nat (- e)))
      in if s then - m else m)"

definition SATOSHIS_PER_BTC :: decimal where
  "SATOSHIS_PER_BTC = Decimal False 100000000 0"

definition btc_to_satoshi :: "decimal \<Rightarrow> int" where
  "btc_to_satoshi btc_amount = decimal_to_int (decimal_mul btc_amount SATOSHIS_PER_BTC)"

section \<open>Configuration\<close>

definition NETWORK :: string where
  "NETWORK = ''mainnet''"

definition DEFAULT_FEE_SATS_PER_BYTE :: int where
  "DEFAULT_FEE_SATS_PER_BYTE = 10"

section \<open>Size and fee estimation\<close>

text \<open>
  \<^verbatim>\<open>tx_builder.estimate_transaction_size\<close>: the estimator that UTXO selection and
  transaction assembly call. It takes an output type and does not read it: every output
  counts 34 bytes and the overhead is 10 bytes whatever the counts.
\<close>

definition estimate_transaction_size :: "int \<Rightarrow> int \<Rightarrow> string \<Rightarrow> string \<Rightarrow> int" where
  "estimate_transaction_size num_inputs num_outputs input_type output_type =
     (let input_size =
            (if input_type = ''p2wpkh'' then 68
             else if input_type = ''p2pkh'' then 148
             else 100);
          output_size = 34;
          overhead = 10
      in (num_inputs * input_size) + (num_outputs * output_size) + overhead)"

text \<open>
  \<^verbatim>\<open>fee_estimator.estimate_transaction_size_bytes\<close>: the estimator of the fee module.
  The two warnings it prints for an unknown type have no effect on the result.
\<close>

definition estimate_transaction_size_bytes :: "int \<Rightarrow> int \<Rightarrow> string \<Rightarrow> string \<Rightarrow> int" where
  "estimate_transaction_size_bytes num_inputs num_outputs input_type output_type =
     (let input_vbytes =
            (if input_type = ''p2wpkh'' then 68
             else if input_type = ''p2pkh'' then 148
             else 100);
          output_vbytes =
            (if output_type = ''p2pkh'' then 34
             else if output_type = ''p2wpkh'' then 31
             else if output_type = ''p2sh'' then 32
             else 34);
          overhead_vbytes = 10;
          overhead_vbytes = (if num_inputs > 252 then overhead_vbytes + 2 else overhead_vbytes);
          overhead_vbytes = (if num_outputs > 252 then overhead_vbytes + 2 else overhead_vbytes)
      in (num_inputs * input_vbytes) + (num_outputs * output_vbytes) + overhead_vbytes)"

record fee_details =
  estimated_size_vbytes :: int
  fee_rate_sats_per_vbyte :: int
  total_fee_sats :: int

definition estimate_fee_details ::
  "int \<Rightarrow> int \<Rightarrow> string \<Rightarrow> string \<Rightarrow> int option \<Rightarrow> fee_details" where
  "estimate_fee_details num_inputs num_outputs input_type output_type custom_fee_rate_sats_per_vbyte =
     (let size_vbytes = estimate_transaction_size_bytes num_inputs num_outputs input_type output_type;
          fee_rate_to_use =
            (case custom_fee_rate_sats_per_vbyte of
               Some r \<Rightarrow> r
             | None \<Rightarrow> DEFAULT_FEE_SATS_PER_BYTE)
      in \<lparr> estimated_size_vbytes = size_vbytes,
           fee_rate_sats_per_vbyte = fee_rate_to_use,
           total_fee_sats = size_vbytes * fee_rate_to_use \<rparr>)"

section \<open>UTXO selection\<close>

text \<open>
  A UTXO is a dictionary. The functions below read five of its keys; a key the
  dictionary does not hold is \<open>None\<close>. \<^verbatim>\<open>amount\<close> is the value in BTC as the node
  reports it, \<^verbatim>\<open>satoshi_amount\<close> is the key that selection adds to its copies.
\<close>

record utxo =
  txid :: "string option"
  vout :: "int option"
  amount :: "decimal option"
  scriptPubKey :: "string option"
  satoshi_amount :: "int option"

definition has_selection_keys :: "utxo \<Rightarrow> bool" where
  "has_selection_keys u =
     (txid u \<noteq> None \<and> vout u \<noteq> None \<and> amount u \<noteq> None \<and> scriptPubKey u \<noteq> None)"

text \<open>
  The first loop of \<^verbatim>\<open>select_utxos_for_amount\<close>: each UTXO is checked for the four
  required keys (the first one that lacks a key raises, with its index) and copied with
  its amount in satoshis. The key \<^verbatim>\<open>amount\<close> is read after the check that it is there.
\<close>

definition with_sats :: "utxo \<Rightarrow> utxo" where
  "with_sats u = u\<lparr>satoshi_amount := Some (btc_to_satoshi (the (amount u)))\<rparr>"

fun utxos_with_sats :: "nat \<Rightarrow> utxo list \<Rightarrow> exn + utxo list" where
  "utxos_with_sats i [] = Inr []"
| "utxos_with_sats i (u # us) =
     (if \<not> has_selection_keys u then Inl (ValueError (UTXO_missing_keys i))
      else
        (case utxos_with_sats (Suc i) us of
           Inl e \<Rightarrow> Inl e
         | Inr rest \<Rightarrow> Inr (with_sats u # rest)))"

text \<open>
  The satoshi value of a copy made by the first loop. Every element of the list that is
  sorted and selected from carries the key (lemma \<open>utxos_with_sats_keys\<close>), so the
  lookup cannot raise there.
\<close>

definition sats :: "utxo \<Rightarrow> int" where
  "sats u = the (satoshi_amount u)"

text \<open>
  \<^verbatim>\<open>sort(key=..., reverse=True)\<close>: descending by satoshi value; Python's sort is stable
  also with \<^verbatim>\<open>reverse=True\<close>, so equal values keep their order. \<open>sort_key\<close> is a stable
  ascending sort, here on the negated value.
\<close>

definition sort_largest_first :: "utxo list \<Rightarrow> utxo list" where
  "sort_largest_first us = sort_key (\<lambda>u. - sats u) us"

text \<open>
  The selection loop. \<open>selected\<close>, \<open>total_selected\<close> and \<open>fee\<close> are the loop's three variables
  \<^verbatim>\<open>selected_utxos_list\<close>, \<^verbatim>\<open>total_selected_sats\<close> and \<^verbatim>\<open>estimated_fee_sats\<close>; the
  result is their value when the loop ends, by \<^verbatim>\<open>break\<close> or by exhausting the list.
\<close>

fun select_loop ::
  "int \<Rightarrow> int \<Rightarrow> string \<Rightarrow> string \<Rightarrow> utxo list \<Rightarrow> utxo list \<Rightarrow> int \<Rightarrow> int
     \<Rightarrow> utxo list \<times> int \<times> int" where
  "select_loop target rate input_type output_type [] selected total_selected fee = (selected, total_selected, fee)"
| "select_loop target rate input_type output_type (u # rest) selected total_selected fee =
     (let selected' = selected @ [u];
          total_selected' = total_selected + sats u;
          num_inputs = int (length selected');
          num_outputs = 2;
          current_tx_size = estimate_transaction_size num_inputs num_outputs input_type output_type;
          fee' = current_tx_size * rate
      in if total_selected' \<ge> target + fee' then (selected', total_selected', fee')
         else select_loop target rate input_type output_type rest selected' total_selected' fee')"

definition select_utxos_for_amount ::
  "utxo list \<Rightarrow> int \<Rightarrow> int \<Rightarrow> string \<Rightarrow> string \<Rightarrow> exn + (utxo list \<times> int \<times> int)" where
  "select_utxos_for_amount utxos target_amount_sats fee_rate_sats_per_byte
       input_address_type output_address_type =
     (if utxos = [] then Inl (ValueError No_UTXOs_to_select)
      else
        (case utxos_with_sats 0 utxos of
           Inl e \<Rightarrow> Inl e
         | Inr copies \<Rightarrow>
            (case select_loop target_amount_sats fee_rate_sats_per_byte input_address_type
                    output_address_type (sort_largest_first copies) [] 0 0 of
               (selected_utxos_list, total_selected_sats, estimated_fee_sats) \<Rightarrow>
                 (let num_outputs_final =
                        (if total_selected_sats > target_amount_sats + estimated_fee_sats then 2
                         else if total_selected_sats = target_amount_sats + estimated_fee_sats then 1
                         else 1);
                      final_tx_size =
                        estimate_transaction_size (int (length selected_utxos_list)) num_outputs_final
                          input_address_type output_address_type;
                      final_estimated_fee_sats = final_tx_size * fee_rate_sats_per_byte
                  in if total_selected_sats < target_amount_sats + final_estimated_fee_sats
                     then Inl (ValueError (Insufficient_funds
                                 (target_amount_sats + final_estimated_fee_sats)
                                 total_selected_sats
                                 (length selected_utxos_list)
                                 final_estimated_fee_sats))
                     else Inr (selected_utxos_list, total_selected_sats, final_estimated_fee_sats)))))"

section \<open>The transaction library\<close>

text \<open>
  Addresses and transactions are objects of the external library bitcoinlib. The wallet
  code calls four of its operations; what they do is a parameter of the model:
  \<^item> \<open>address_error lib address network\<close>: the exception that
    \<^verbatim>\<open>Address(address, network=network)\<close> raises, \<open>None\<close> when the address parses;
  \<^item> \<open>input_error lib network prev_txid output_n v\<close>: the exception that
    \<^verbatim>\<open>tx.add_input(prev_txid=.., output_n=.., value=..)\<close> raises, \<open>None\<close> when the input
    is appended;
  \<^item> \<open>output_error lib network v address\<close>: the exception that
    \<^verbatim>\<open>tx.add_output(value=.., address=..)\<close> raises, \<open>None\<close> when the output is appended;
  \<^item> \<open>tx_hex lib tx\<close>: the serialization \<^verbatim>\<open>tx.hex()\<close>.
  A transaction is the network, the witness type and the inputs and outputs in the
  order they were added. An operation that raises leaves the transaction as it was.
\<close>

datatype tx_input = Input string int int
  \<comment> \<open>\<^verbatim>\<open>prev_txid\<close>, \<^verbatim>\<open>output_n\<close>, value in satoshis\<close>

datatype tx_output = Output int string
  \<comment> \<open>value in satoshis, address\<close>

fun input_sats :: "tx_input \<Rightarrow> int" where
  "input_sats (Input prev_txid output_n v) = v"

fun output_sats :: "tx_output \<Rightarrow> int" where
  "output_sats (Output v address) = v"

record transaction =
  tx_network :: string
  tx_witness_type :: "string option"
  tx_inputs :: "tx_input list"
  tx_outputs :: "tx_output list"

record bitcoinlib =
  address_error :: "string \<Rightarrow> string \<Rightarrow> lib_exn option"
  input_error :: "string \<Rightarrow> string \<Rightarrow> int \<Rightarrow> int \<Rightarrow> lib_exn option"
  output_error :: "string \<Rightarrow> int \<Rightarrow> string \<Rightarrow> lib_exn option"
  tx_hex :: "transaction \<Rightarrow> string"

definition Transaction :: "string \<Rightarrow> string option \<Rightarrow> transaction" where
  "Transaction network witness_type =
     \<lparr> tx_network = network, tx_witness_type = witness_type, tx_inputs = [], tx_outputs = [] \<rparr>"

definition add_input ::
  "bitcoinlib \<Rightarrow> transaction \<Rightarrow> string \<Rightarrow> int \<Rightarrow> int \<Rightarrow> lib_exn + transaction" where
  "add_input lib tx prev_txid output_n v =
     (case input_error lib (tx_network tx) prev_txid output_n v of
        Some e \<Rightarrow> Inl e
      | None \<Rightarrow> Inr (tx\<lparr>tx_inputs := tx_inputs tx @ [Input prev_txid output_n v]\<rparr>))"

definition add_output ::
  "bitcoinlib \<Rightarrow> transaction \<Rightarrow> int \<Rightarrow> string \<Rightarrow> lib_exn + transaction" where
  "add_output lib tx v address =
     (case output_error lib (tx_network tx) v address of
        Some e \<Rightarrow> Inl e
      | None \<Rightarrow> Inr (tx\<lparr>tx_outputs := tx_outputs tx @ [Output v address]\<rparr>))"

section \<open>Transaction assembly\<close>

definition resolve_network_name :: "string option \<Rightarrow> string" where
  "resolve_network_name network_name =
     (case network_name of
        Some n \<Rightarrow> n
      | None \<Rightarrow>
          (if NETWORK = ''testnet'' then ''testnet''
           else if NETWORK = ''mainnet'' then ''bitcoin''
           else if NETWORK = ''regtest'' then ''regtest''
           else ''testnet''))"

definition has_spend_keys :: "utxo \<Rightarrow> bool" where
  "has_spend_keys u =
     (txid u \<noteq> None \<and> vout u \<noteq> None \<and> satoshi_amount u \<noteq> None \<and> scriptPubKey u \<noteq> None)"

definition witness_type_of :: "string \<Rightarrow> string option" where
  "witness_type_of input_address_type =
     (if input_address_type = ''p2wpkh'' then Some ''segwit''
      else if input_address_type = ''p2sh-p2wpkh'' then Some ''segwit_p2sh''
      else None)"

text \<open>
  The input loop: every UTXO becomes an input and its satoshi value is added to
  \<^verbatim>\<open>total_input_sats\<close>. The three keys are read after the check that they are there.
\<close>

fun add_inputs :: "bitcoinlib \<Rightarrow> transaction \<Rightarrow> int \<Rightarrow> utxo list \<Rightarrow> exn + (transaction \<times> int)" where
  "add_inputs lib tx total_input_sats [] = Inr (tx, total_input_sats)"
| "add_inputs lib tx total_input_sats (utxo_data # rest) =
     (case add_input lib tx (the (txid utxo_data)) (the (vout utxo_data)) (sats utxo_data) of
        Inl e \<Rightarrow> Inl (Propagated e)
      | Inr tx' \<Rightarrow> add_inputs lib tx' (total_input_sats + sats utxo_data) rest)"

definition MIN_CHANGE_SATS :: int where
  "MIN_CHANGE_SATS = 546"

text \<open>
  The change step. A change of at least \<open>MIN_CHANGE_SATS\<close> becomes an output, unless the
  library refuses that output with a \<^verbatim>\<open>ScriptError\<close>, which the source catches: then,
  as for a change below \<open>MIN_CHANGE_SATS\<close>, no output is added and the change is added to
  the fee. An exception of \<^verbatim>\<open>add_output\<close> of any other class is not caught.
\<close>

definition add_change ::
  "bitcoinlib \<Rightarrow> transaction \<Rightarrow> int \<Rightarrow> int \<Rightarrow> string \<Rightarrow> exn + (transaction \<times> int)" where
  "add_change lib tx change_sats calculated_fee_sats change_address =
     (if change_sats > 0 then
        (if change_sats \<ge> MIN_CHANGE_SATS then
           (case add_output lib tx change_sats change_address of
              Inr tx' \<Rightarrow> Inr (tx', calculated_fee_sats)
            | Inl (Lib_exn ScriptError_class text) \<Rightarrow>
                Inr (tx, calculated_fee_sats + change_sats)
            | Inl e \<Rightarrow> Inl (Propagated e))
         else Inr (tx, calculated_fee_sats + change_sats))
      else if change_sats < 0 then Inl (ValueError (Negative_change change_sats))
      else Inr (tx, calculated_fee_sats))"

definition final_check :: "int \<Rightarrow> transaction \<Rightarrow> int \<Rightarrow> exn + (transaction \<times> int)" where
  "final_check total_input_sats tx calculated_fee_sats =
     (let total_out_sats = sum_list (map output_sats (tx_outputs tx))
      in if total_input_sats \<noteq> total_out_sats + calculated_fee_sats
            \<and> total_input_sats < total_out_sats + calculated_fee_sats
         then Inl (ValueError (Mismatch_deficit total_input_sats total_out_sats calculated_fee_sats))
         else Inr (tx, calculated_fee_sats))"

text \<open>
  \<^verbatim>\<open>create_raw_transaction\<close> is modelled in the order of its statements: the checks of
  the arguments, the input loop, and the part that computes the fee and adds the
  outputs. \<open>check_arguments\<close> is the exception that the checks raise, \<open>None\<close> when
  they pass.
\<close>

definition check_arguments ::
  "bitcoinlib \<Rightarrow> string \<Rightarrow> utxo list \<Rightarrow> string \<Rightarrow> string \<Rightarrow> exn option" where
  "check_arguments lib network_name utxos_to_spend recipient_address change_address =
     (if network_name \<notin> set [''bitcoin'', ''testnet'', ''regtest'']
      then Some (ValueError (Network_not_recognized network_name))
      else if utxos_to_spend = [] then Some (ValueError No_UTXOs_to_spend)
      else if \<not> list_all has_spend_keys utxos_to_spend
      then Some (ValueError Spend_UTXO_missing_keys)
      else
        (case address_error lib recipient_address network_name of
           Some e \<Rightarrow> Some (ValueError (Invalid_address network_name e))
         | None \<Rightarrow>
            (case address_error lib change_address network_name of
               Some e \<Rightarrow> Some (ValueError (Invalid_address network_name e))
             | None \<Rightarrow> None)))"

text \<open>
  The fee before the change is known: the size for the number of UTXOs and for two
  outputs if anything is left over the target, one output otherwise, times the rate.
  The output type is the default of the estimator's parameter.
\<close>

definition preliminary_fee :: "int \<Rightarrow> int \<Rightarrow> int \<Rightarrow> string \<Rightarrow> int \<Rightarrow> int" where
  "preliminary_fee num_utxos total_input_sats target_sats input_address_type fee_rate_sats_per_byte =
     (let potential_change_sats = total_input_sats - target_sats;
          temp_est_size =
            estimate_transaction_size num_utxos (if potential_change_sats > 0 then 2 else 1)
              input_address_type ''p2pkh''
      in temp_est_size * fee_rate_sats_per_byte)"

definition add_outputs ::
  "bitcoinlib \<Rightarrow> transaction \<Rightarrow> int \<Rightarrow> int \<Rightarrow> int \<Rightarrow> string \<Rightarrow> string
     \<Rightarrow> exn + (transaction \<times> int)" where
  "add_outputs lib tx total_input_sats target_sats calculated_fee_sats recipient_address
       change_address =
     (if total_input_sats < target_sats + calculated_fee_sats
      then Inl (ValueError (Insufficient_preliminary total_input_sats target_sats
                  calculated_fee_sats (target_sats + calculated_fee_sats)))
      else
        (case add_output lib tx target_sats recipient_address of
           Inl e \<Rightarrow> Inl (Propagated e)
         | Inr tx1 \<Rightarrow>
            (let change_sats = total_input_sats - target_sats - calculated_fee_sats
             in case add_change lib tx1 change_sats calculated_fee_sats change_address of
                  Inl e \<Rightarrow> Inl e
                | Inr (tx2, fee_sats) \<Rightarrow> final_check total_input_sats tx2 fee_sats)))"

text \<open>
  \<^verbatim>\<open>create_raw_transaction\<close> up to its \<^verbatim>\<open>return\<close>: the transaction object it has built
  and the fee it reports.
\<close>

definition assemble_transaction ::
  "bitcoinlib \<Rightarrow> string \<Rightarrow> decimal \<Rightarrow> int \<Rightarrow> utxo list \<Rightarrow> string \<Rightarrow> string option \<Rightarrow> string
     \<Rightarrow> exn + (transaction \<times> int)" where
  "assemble_transaction lib recipient_address amount_btc fee_rate_sats_per_byte utxos_to_spend
       change_address network_name_arg input_address_type =
     (let network_name = resolve_network_name network_name_arg
      in case check_arguments lib network_name utxos_to_spend recipient_address change_address of
           Some e \<Rightarrow> Inl e
         | None \<Rightarrow>
            (case add_inputs lib (Transaction network_name (witness_type_of input_address_type)) 0
                    utxos_to_spend of
               Inl e \<Rightarrow> Inl e
             | Inr (tx, total_input_sats) \<Rightarrow>
                (let target_sats = btc_to_satoshi amount_btc;
                     calculated_fee_sats =
                       preliminary_fee (int (length utxos_to_spend)) total_input_sats target_sats
                         input_address_type fee_rate_sats_per_byte
                 in add_outputs lib tx total_input_sats target_sats calculated_fee_sats
                      recipient_address change_address)))"

definition create_raw_transaction ::
  "bitcoinlib \<Rightarrow> string \<Rightarrow> decimal \<Rightarrow> int \<Rightarrow> utxo list \<Rightarrow> string \<Rightarrow> string option \<Rightarrow> string
     \<Rightarrow> exn + (string \<times> int)" where
  "create_raw_transaction lib recipient_address amount_btc fee_rate_sats_per_byte utxos_to_spend
       change_address network_name input_address_type =
     (case assemble_transaction lib recipient_address amount_btc fee_rate_sats_per_byte
             utxos_to_spend change_address network_name input_address_type of
        Inl e \<Rightarrow> Inl e
      | Inr (tx, calculated_fee_sats) \<Rightarrow> Inr (tx_hex lib tx, calculated_fee_sats))"

section \<open>Key encryption\<close>

text \<open>
  Byte strings and text are both lists of 8-bit characters; \<^verbatim>\<open>password.encode()\<close> is
  then the identity. The cryptography and the serialization are external libraries
  (cryptography, base64, json); what they compute is a parameter of the model:
  \<^item> \<open>pbkdf2_hmac_sha256 lib password salt iterations len\<close>:
    \<^verbatim>\<open>PBKDF2HMAC(SHA256, length, salt, iterations).derive(password)\<close>;
  \<^item> \<open>urlsafe_b64encode lib\<close>: \<^verbatim>\<open>base64.urlsafe_b64encode\<close>;
  \<^item> \<open>fernet_encrypt lib key nonce plaintext\<close>: \<^verbatim>\<open>Fernet(key).encrypt(plaintext)\<close>, where
    \<open>nonce\<close> is the initialisation vector and the timestamp that the call draws;
  \<^item> \<open>fernet_decrypt lib key token\<close>: \<^verbatim>\<open>Fernet(key).decrypt(token)\<close>, the plaintext or the
    exception it raises (\<^verbatim>\<open>InvalidToken\<close>);
  \<^item> \<open>json_dumps lib data\<close>: \<^verbatim>\<open>json.dumps(data).encode('utf-8')\<close>, or the exception raised
    for data that json cannot serialize;
  \<^item> \<open>json_loads lib payload\<close>: \<^verbatim>\<open>json.loads(payload.decode('utf-8'))\<close>, or the exception
    raised.
  The salt that \<^verbatim>\<open>os.urandom(16)\<close> returns is an explicit argument of \<open>encrypt_key_data\<close>,
  as is the nonce. The type \<open>'d\<close> is the type of the key-data dictionary.
\<close>

type_synonym bytes = string

record 'd crypto_lib =
  pbkdf2_hmac_sha256 :: "bytes \<Rightarrow> bytes \<Rightarrow> nat \<Rightarrow> nat \<Rightarrow> bytes"
  urlsafe_b64encode :: "bytes \<Rightarrow> bytes"
  fernet_encrypt :: "bytes \<Rightarrow> bytes \<Rightarrow> bytes \<Rightarrow> bytes"
  fernet_decrypt :: "bytes \<Rightarrow> bytes \<Rightarrow> lib_exn + bytes"
  json_dumps :: "'d \<Rightarrow> lib_exn + bytes"
  json_loads :: "bytes \<Rightarrow> lib_exn + 'd"

definition derive_encryption_key :: "'d crypto_lib \<Rightarrow> string \<Rightarrow> bytes \<Rightarrow> bytes" where
  "derive_encryption_key lib password salt =
     urlsafe_b64encode lib (pbkdf2_hmac_sha256 lib password salt 100000 32)"

definition encrypt_key_data ::
  "'d crypto_lib \<Rightarrow> bytes \<Rightarrow> bytes \<Rightarrow> 'd \<Rightarrow> string \<Rightarrow> lib_exn + bytes" where
  "encrypt_key_data lib salt nonce data password =
     (let key = derive_encryption_key lib password salt
      in case json_dumps lib data of
           Inl e \<Rightarrow> Inl e
         | Inr serialized_data \<Rightarrow>
             (let encrypted_payload = fernet_encrypt lib key nonce serialized_data
              in Inr (salt @ encrypted_payload)))"

definition decrypt_key_data :: "'d crypto_lib \<Rightarrow> bytes \<Rightarrow> string \<Rightarrow> lib_exn + 'd" where
  "decrypt_key_data lib encrypted_data_with_salt password =
     (let salt = take 16 encrypted_data_with_salt;
          encrypted_payload = drop 16 encrypted_data_with_salt;
          key = derive_encryption_key lib password salt
      in case fernet_decrypt lib key encrypted_payload of
           Inl e \<Rightarrow> Inl e
         | Inr decrypted_payload \<Rightarrow> json_loads lib decrypted_payload)"

text \<open>
  The file system is a map from paths to file contents. \<^verbatim>\<open>load_encrypted_key\<close> catches
  every exception of the decryption and raises a \<^verbatim>\<open>ValueError\<close> in its place.
\<close>

definition load_encrypted_key ::
  "'d crypto_lib \<Rightarrow> (string \<rightharpoonup> bytes) \<Rightarrow> string \<Rightarrow> string \<Rightarrow> exn + 'd" where
  "load_encrypted_key lib files filepath password =
     (case files filepath of
        None \<Rightarrow> Inl (FileNotFoundError (Wallet_file_not_found filepath))
      | Some encrypted_data_with_salt \<Rightarrow>
          (case decrypt_key_data lib encrypted_data_with_salt password of
             Inr key_data \<Rightarrow> Inr key_data
           | Inl e \<Rightarrow> Inl (ValueError (Failed_to_decrypt e))))"

section \<open>Example data\<close>

text \<open>
  The two UTXOs, the target and the fee rate of the test block at the end of
  \<^verbatim>\<open>tx_builder.py\<close>: 0.005 BTC and 0.003 BTC on a P2WPKH address, 0.002 BTC to send at
  2 satoshis per byte.
\<close>

definition example_address :: string where
  "example_address = ''tb1qf9y5m3n7lgjpmj5j9z5kzgv8jcnhpv3wlam7wa''"

definition example_recipient :: string where
  "example_recipient = ''tb1q0s3z3g0z9y0j7r8z3f0z9y0j7r8z3f0z9y0j7r''"

definition example_utxo_1 :: utxo where
  "example_utxo_1 =
     \<lparr> txid = Some ''deadbeef00000000000000000000000000000000000000000000000000000000'',
       vout = Some 0,
       amount = Some (Decimal False 5 (- 3)),
       scriptPubKey = Some ''00140000000000000000000000000000000000000000'',
       satoshi_amount = None \<rparr>"

definition example_utxo_2 :: utxo where
  "example_utxo_2 =
     \<lparr> txid = Some ''cafebabe00000000000000000000000000000000000000000000000000000000'',
       vout = Some 1,
       amount = Some (Decimal False 3 (- 3)),
       scriptPubKey = Some ''00140000000000000000000000000000000000000001'',
       satoshi_amount = None \<rparr>"

definition example_utxos_p2wpkh :: "utxo list" where
  "example_utxos_p2wpkh = [example_utxo_1, example_utxo_2]"

definition target_send_amount_btc :: decimal where
  "target_send_amount_btc = Decimal False 2 (- 3)"

text \<open>The UTXO with a given output index and a given number of satoshis, as the node
  reports it (eight decimals).\<close>

definition utxo_of_sats :: "int \<Rightarrow> nat \<Rightarrow> utxo" where
  "utxo_of_sats n_out n =
     \<lparr> txid = Some ''deadbeef00000000000000000000000000000000000000000000000000000000'',
       vout = Some n_out,
       amount = Some (Decimal False n (- 8)),
       scriptPubKey = Some ''00140000000000000000000000000000000000000000'',
       satoshi_amount = None \<rparr>"

text \<open>
  Three instances of the transaction library. The first accepts every address, input
  and output. The second has a dust limit of 1000 satoshis: \<^verbatim>\<open>add_output\<close> raises a
  \<^verbatim>\<open>ScriptError\<close> for a smaller value. The third refuses every address.
\<close>

definition accepting_lib :: bitcoinlib where
  "accepting_lib =
     \<lparr> address_error = (\<lambda>address network. None),
       input_error = (\<lambda>network prev_txid output_n v. None),
       output_error = (\<lambda>network v address. None),
       tx_hex = (\<lambda>tx. []) \<rparr>"

definition dust_1000_lib :: bitcoinlib where
  "dust_1000_lib =
     \<lparr> address_error = (\<lambda>address network. None),
       input_error = (\<lambda>network prev_txid output_n v. None),
       output_error = (\<lambda>network v address.
          if v < 1000 then Some (Lib_exn ScriptError_class ''dust'') else None),
       tx_hex = (\<lambda>tx. []) \<rparr>"

definition rejecting_lib :: bitcoinlib where
  "rejecting_lib =
     \<lparr> address_error = (\<lambda>address network. Some (Lib_exn ValueError_class ''address'')),
       input_error = (\<lambda>network prev_txid output_n v. None),
       output_error = (\<lambda>network v address. None),
       tx_hex = (\<lambda>tx. []) \<rparr>"

text \<open>
  An instance of the cryptography interface without any secrecy, for key data that is a
  byte string: the key is the password followed by the salt, a token is the key followed
  by the plaintext, and decryption accepts a token that starts with its key.
\<close>

definition plain_lib :: "bytes crypto_lib" where
  "plain_lib =
     \<lparr> pbkdf2_hmac_sha256 = (\<lambda>password salt iterations len. password @ salt),
       urlsafe_b64encode = (\<lambda>b. b),
       fernet_encrypt = (\<lambda>key nonce plaintext. key @ plaintext),
       fernet_decrypt = (\<lambda>key token.
          if take (length key) token = key then Inr (drop (length key) token)
          else Inl (Lib_exn InvalidToken_class [])),
       json_dumps = (\<lambda>data. Inr data),
       json_loads = (\<lambda>payload. Inr payload) \<rparr>"

text \<open>
  An instance of the cryptography interface whose serialization is that of Python's
  \<^verbatim>\<open>json\<close> on flat dictionaries: a dictionary is a list of items in insertion order, a
  key is a \<^verbatim>\<open>str\<close> or an \<^verbatim>\<open>int\<close>, a value is a \<^verbatim>\<open>str\<close>. \<^verbatim>\<open>json.dumps\<close> writes
  an \<^verbatim>\<open>int\<close> key as the string of its digits, between double quotes like every key, with
  \<^verbatim>\<open>", "\<close> between items and \<^verbatim>\<open>": "\<close> after a key; \<^verbatim>\<open>json.loads\<close> reads every key as
  a \<^verbatim>\<open>str\<close>. The two functions below agree with \<^verbatim>\<open>json\<close> on dictionaries whose keys
  and values need no escape (no double quote, backslash, control or non-ASCII character):
  there the strings of the text are the pieces between its double quotes, a key and a
  value in turn. The cryptography of the instance is that of \<open>plain_lib\<close>.
\<close>

datatype py_key = Str_key string | Int_key int

type_synonym py_dict = "(py_key \<times> string) list"

definition dq :: char where
  "dq = CHR 0x22"

fun nat_text :: "nat \<Rightarrow> string" where
  "nat_text n =
     (if n < 10 then [''0123456789'' ! n]
      else nat_text (n div 10) @ [''0123456789'' ! (n mod 10)])"

declare nat_text.simps [simp del]

definition int_text :: "int \<Rightarrow> string" where
  "int_text i = (if i < 0 then CHR ''-'' # nat_text (nat (- i)) else nat_text (nat i))"

fun key_text :: "py_key \<Rightarrow> string" where
  "key_text (Str_key s) = s"
| "key_text (Int_key i) = int_text i"

definition quoted :: "string \<Rightarrow> string" where
  "quoted s = dq # s @ [dq]"

fun json_items :: "py_dict \<Rightarrow> string" where
  "json_items [] = []"
| "json_items [(k, v)] = quoted (key_text k) @ '': '' @ quoted v"
| "json_items ((k, v) # rest) =
     quoted (key_text k) @ '': '' @ quoted v @ '', '' @ json_items rest"

definition python_json_dumps :: "py_dict \<Rightarrow> lib_exn + bytes" where
  "python_json_dumps d = Inr (''{'' @ json_items d @ ''}'')"

fun split_on :: "char \<Rightarrow> string \<Rightarrow> string list" where
  "split_on c [] = [[]]"
| "split_on c (x # xs) =
     (case split_on c xs of
        [] \<Rightarrow> [[x]]
      | w # ws \<Rightarrow> if x = c then [] # w # ws else (x # w) # ws)"

fun between_quotes :: "string list \<Rightarrow> string list" where
  "between_quotes (outside # inside # rest) = inside # between_quotes rest"
| "between_quotes rest = []"

fun items_of :: "string list \<Rightarrow> py_dict" where
  "items_of (k # v # rest) = (Str_key k, v) # items_of rest"
| "items_of rest = []"

definition python_json_loads :: "bytes \<Rightarrow> lib_exn + py_dict" where
  "python_json_loads payload =
     (if payload \<noteq> [] \<and> hd payload = CHR ''{'' \<and> last payload = CHR ''}''
      then Inr (items_of (between_quotes (split_on dq payload)))
      else Inl (Lib_exn JSONDecodeError_class payload))"

definition json_lib :: "py_dict crypto_lib" where
  "json_lib =
     \<lparr> pbkdf2_hmac_sha256 = (\<lambda>password salt iterations len. password @ salt),
       urlsafe_b64encode = (\<lambda>b. b),
       fernet_encrypt = (\<lambda>key nonce plaintext. key @ plaintext),
       fernet_decrypt = (\<lambda>key token.
          if take (length key) token = key then Inr (drop (length key) token)
          else Inl (Lib_exn InvalidToken_class [])),
       json_dumps = python_json_dumps,
       json_loads = python_json_loads \<rparr>"

text \<open>The dictionary \<^verbatim>\<open>{1: 'a'}\<close>, the text that \<^verbatim>\<open>json.dumps\<close> makes of it, which is
  \<^verbatim>\<open>{"1": "a"}\<close>, and the dictionary \<^verbatim>\<open>{'1': 'a'}\<close> that \<^verbatim>\<open>json.loads\<close> reads from it.\<close>

definition int_key_data :: py_dict where
  "int_key_data = [(Int_key 1, ''a'')]"

definition int_key_json :: bytes where
  "int_key_json =
     [CHR ''{'', dq, CHR ''1'', dq, CHR '':'', CHR '' '', dq, CHR ''a'', dq, CHR ''}'']"

definition str_key_data :: py_dict where
  "str_key_data = [(Str_key ''1'', ''a'')]"

definition salt_a :: bytes where
  "salt_a = ''0123456789abcdef''"


text \<open>The UTXO that selection returns for the example: the first one, with its satoshi
  value.\<close>

definition example_selected :: "utxo list" where
  "example_selected = [example_utxo_1\<lparr>satoshi_amount := Some 500000\<rparr>]"


text \<open>A UTXO that leaves a change of 600 satoshis after the example payment and its fee.\<close>

definition dust_change_utxos :: "utxo list" where
  "dust_change_utxos = [example_utxo_1\<lparr>satoshi_amount := Some 200892\<rparr>]"

text \<open>One UTXO of 10000 satoshis and two of 1 satoshi each.\<close>

definition dust_utxos :: "utxo list" where
  "dust_utxos = [utxo_of_sats 0 10000, utxo_of_sats 1 1, utxo_of_sats 2 1]"

text \<open>A UTXO without the key \<^verbatim>\<open>txid\<close>.\<close>

definition malformed_utxo :: utxo where
  "malformed_utxo = example_utxo_1\<lparr>txid := None\<rparr>"

text \<open>Key data, and the container that \<open>plain_lib\<close> makes of it with the salt \<open>salt_a\<close>
  and the password \<^verbatim>\<open>supersecretpassword\<close>.\<close>

definition example_key_data :: bytes where
  "example_key_data = ''{wif: cExampleKey, address: tb1qexample}''"

definition example_container :: bytes where
  "example_container = salt_a @ (''supersecretpassword'' @ salt_a) @ example_key_data"

section \<open>Evaluation on concrete inputs\<close>

lemmas decimal_defs = btc_to_satoshi_def SATOSHIS_PER_BTC_def num_digits.simps context_prec_def
  round_half_even_def

lemma target_sats_example: "btc_to_satoshi target_send_amount_btc = 200000"
  by (simp add: decimal_defs target_send_amount_btc_def)

text \<open>The product is rounded to 28 significant digits before it is truncated.\<close>

lemma btc_to_satoshi_rounds_long_coefficients:
  "btc_to_satoshi (Decimal False 19999999999999999999999999995 (- 29)) = 20000000"
  by (simp add: decimal_defs Let_def)

section \<open>Transaction assembly: the steps\<close>

lemma add_output_Inr:
  "add_output lib tx v a = Inr tx' \<Longrightarrow>
     tx_outputs tx' = tx_outputs tx @ [Output v a] \<and> tx_inputs tx' = tx_inputs tx
     \<and> tx_network tx' = tx_network tx"
  by (auto simp: add_output_def split: option.splits)

lemma add_input_Inr:
  "add_input lib tx t n v = Inr tx' \<Longrightarrow>
     tx_inputs tx' = tx_inputs tx @ [Input t n v] \<and> tx_outputs tx' = tx_outputs tx
     \<and> tx_network tx' = tx_network tx"
  by (auto simp: add_input_def split: option.splits)

lemma add_inputs_Inr:
  "add_inputs lib tx t us = Inr (tx', t') \<Longrightarrow>
     t' = t + sum_list (map sats us) \<and> tx_outputs tx' = tx_outputs tx \<and>
     tx_network tx' = tx_network tx \<and>
     map input_sats (tx_inputs tx') = map input_sats (tx_inputs tx) @ map sats us"
proof (induction us arbitrary: tx t)
  case Nil
  then show ?case by simp
next
  case (Cons u us)
  from Cons.prems obtain tx1 where
    a: "add_input lib tx (the (txid u)) (the (vout u)) (sats u) = Inr tx1" and
    r: "add_inputs lib tx1 (t + sats u) us = Inr (tx', t')"
    by (auto split: sum.splits)
  from Cons.IH [OF r] add_input_Inr [OF a] show ?case by simp
qed

lemma add_inputs_Inl: "add_inputs lib tx t us = Inl e \<Longrightarrow> \<exists>l. e = Propagated l"
  by (induction us arbitrary: tx t) (auto split: sum.splits)


lemma add_change_unfold:
  "add_change lib tx c f a =
     (if c > 0 then
        (if c \<ge> 546 then
           (case output_error lib (tx_network tx) c a of
              None \<Rightarrow> Inr (tx\<lparr>tx_outputs := tx_outputs tx @ [Output c a]\<rparr>, f)
            | Some (Lib_exn cls text) \<Rightarrow>
                if cls = ScriptError_class then Inr (tx, f + c)
                else Inl (Propagated (Lib_exn cls text)))
         else Inr (tx, f + c))
      else if c < 0 then Inl (ValueError (Negative_change c))
      else Inr (tx, f))"
  by (simp add: add_change_def add_output_def MIN_CHANGE_SATS_def
      split: option.splits lib_exn.splits exn_class.splits)

lemma add_change_Inr:
  "add_change lib tx c f a = Inr (tx', f') \<Longrightarrow>
     sum_list (map output_sats (tx_outputs tx')) + f' = sum_list (map output_sats (tx_outputs tx)) + f + c
     \<and> tx_inputs tx' = tx_inputs tx"
  by (auto simp: add_change_unfold split: if_splits option.splits lib_exn.splits)

lemma add_change_Inl:
  "0 \<le> c \<Longrightarrow> add_change lib tx c f a = Inl e \<Longrightarrow> \<exists>l. e = Propagated l"
  by (auto simp: add_change_unfold split: if_splits option.splits lib_exn.splits)

lemma final_check_Inr: "final_check t tx f = Inr r \<Longrightarrow> r = (tx, f)"
  by (auto simp: final_check_def Let_def split: if_splits)

lemma final_check_Inl:
  "final_check t tx f = Inl e \<Longrightarrow> e = ValueError (Mismatch_deficit t (sum_list (map output_sats (tx_outputs tx))) f)"
  by (auto simp: final_check_def Let_def split: if_splits)

lemma add_outputs_Inr:
  assumes "add_outputs lib tx tot target fee0 ra ca = Inr (tx', fee)"
  shows "\<not> tot < target + fee0"
    and "\<exists>tx1. add_output lib tx target ra = Inr tx1
           \<and> add_change lib tx1 (tot - target - fee0) fee0 ca = Inr (tx', fee)"
proof -
  show a: "\<not> tot < target + fee0"
    using assms by (auto simp: add_outputs_def split: if_splits)
  from assms a obtain tx1 where o: "add_output lib tx target ra = Inr tx1"
    by (cases "add_output lib tx target ra") (auto simp: add_outputs_def)
  from assms a o obtain r where c: "add_change lib tx1 (tot - target - fee0) fee0 ca = Inr r"
    by (cases "add_change lib tx1 (tot - target - fee0) fee0 ca") (auto simp: add_outputs_def)
  obtain tx2 f2 where r: "r = (tx2, f2)" by (cases r)
  from assms a o c r have "final_check tot tx2 f2 = Inr (tx', fee)"
    by (simp add: add_outputs_def)
  from final_check_Inr [OF this] r c o
  show "\<exists>tx1. add_output lib tx target ra = Inr tx1
           \<and> add_change lib tx1 (tot - target - fee0) fee0 ca = Inr (tx', fee)"
    by auto
qed

lemma add_outputs_not_negative:
  "add_outputs lib tx tot target fee0 ra ca \<noteq> Inl (ValueError (Negative_change c))"
proof
  assume h: "add_outputs lib tx tot target fee0 ra ca = Inl (ValueError (Negative_change c))"
  then have a: "\<not> tot < target + fee0"
    by (auto simp: add_outputs_def split: if_splits)
  from h a obtain tx1 where o: "add_output lib tx target ra = Inr tx1"
    by (cases "add_output lib tx target ra") (auto simp: add_outputs_def)
  show False
  proof (cases "add_change lib tx1 (tot - target - fee0) fee0 ca")
    case (Inl e)
    with a add_change_Inl [of "tot - target - fee0" lib tx1 fee0 ca e]
    obtain l where "e = Propagated l" by auto
    with h a o Inl show False by (simp add: add_outputs_def)
  next
    case (Inr r)
    obtain tx2 f2 where r: "r = (tx2, f2)" by (cases r)
    with h a o Inr have "final_check tot tx2 f2 = Inl (ValueError (Negative_change c))"
      by (simp add: add_outputs_def)
    from final_check_Inl [OF this] show False by simp
  qed
qed


lemma assemble_transaction_Inr:
  assumes "assemble_transaction lib ra amt rate us ca nn it = Inr (tx, fee)"
  shows "\<exists>tx0. tx_outputs tx0 = [] \<and> map input_sats (tx_inputs tx0) = map sats us
           \<and> tx_network tx0 = resolve_network_name nn
           \<and> add_outputs lib tx0 (sum_list (map sats us)) (btc_to_satoshi amt)
                (preliminary_fee (int (length us)) (sum_list (map sats us)) (btc_to_satoshi amt) it rate)
                ra ca = Inr (tx, fee)"
proof -
  define net where "net = resolve_network_name nn"
  from assms have chk: "check_arguments lib net us ra ca = None"
    by (cases "check_arguments lib net us ra ca") (auto simp: assemble_transaction_def net_def)
  from assms chk obtain r where
    ins: "add_inputs lib (Transaction net (witness_type_of it)) 0 us = Inr r"
    by (cases "add_inputs lib (Transaction net (witness_type_of it)) 0 us")
       (auto simp: assemble_transaction_def net_def)
  obtain tx0 tot where r: "r = (tx0, tot)" by (cases r)
  from add_inputs_Inr [OF ins [unfolded r]] have
    t: "tot = sum_list (map sats us)" and o0: "tx_outputs tx0 = []" and
    n0: "tx_network tx0 = net" and
    i0: "map input_sats (tx_inputs tx0) = map sats us"
    by (simp_all add: Transaction_def)
  from assms chk ins r t have
    "add_outputs lib tx0 (sum_list (map sats us)) (btc_to_satoshi amt)
       (preliminary_fee (int (length us)) (sum_list (map sats us)) (btc_to_satoshi amt) it rate)
       ra ca = Inr (tx, fee)"
    by (simp add: assemble_transaction_def net_def Let_def)
  with o0 i0 n0 show ?thesis unfolding net_def by blast
qed

lemma create_raw_transaction_Inr:
  "create_raw_transaction lib ra amt rate us ca nn it = Inr (hex, fee) \<Longrightarrow>
     \<exists>tx. assemble_transaction lib ra amt rate us ca nn it = Inr (tx, fee) \<and> hex = tx_hex lib tx"
  by (auto simp: create_raw_transaction_def split: sum.splits)

lemmas run_defs = assemble_transaction_def create_raw_transaction_def check_arguments_def
  add_input_def add_outputs_def add_output_def add_change_unfold final_check_def preliminary_fee_def
  estimate_transaction_size_def Transaction_def resolve_network_name_def witness_type_of_def
  sats_def has_spend_keys_def

lemma example_run:
  "create_raw_transaction accepting_lib example_recipient target_send_amount_btc 2
     example_selected example_address (Some ''testnet'') ''p2wpkh'' = Inr ([], 292)"
  by (simp add: run_defs accepting_lib_def example_selected_def example_utxo_1_def
      target_sats_example)

section \<open>The balance of an assembled transaction\<close>

text \<open>
  Claim C1. Whenever \<^verbatim>\<open>create_raw_transaction\<close> returns a pair of a transaction in hex
  and a fee, the hex is the serialization of a transaction whose inputs carry the satoshi
  values of the UTXOs given, and the sum of these values equals the sum of the values of
  the transaction's outputs plus the fee returned, in integers.
\<close>

theorem create_raw_transaction_balance:
  assumes "create_raw_transaction lib recipient_address amount_btc rate utxos change_address
             network_name input_type = Inr (unsigned_tx_hex, fee_sats)"
  shows "\<exists>tx. assemble_transaction lib recipient_address amount_btc rate utxos change_address
                 network_name input_type = Inr (tx, fee_sats)
           \<and> unsigned_tx_hex = tx_hex lib tx
           \<and> map input_sats (tx_inputs tx) = map sats utxos
           \<and> sum_list (map sats utxos) = sum_list (map output_sats (tx_outputs tx)) + fee_sats"
proof -
  from create_raw_transaction_Inr [OF assms] obtain tx where
    asm: "assemble_transaction lib recipient_address amount_btc rate utxos change_address
            network_name input_type = Inr (tx, fee_sats)"
    and hex: "unsigned_tx_hex = tx_hex lib tx"
    by blast
  define tot where "tot = sum_list (map sats utxos)"
  define target where "target = btc_to_satoshi amount_btc"
  define fee0 where "fee0 = preliminary_fee (int (length utxos)) tot target input_type rate"
  from assemble_transaction_Inr [OF asm] obtain tx0 where
    o0: "tx_outputs tx0 = []" and i0: "map input_sats (tx_inputs tx0) = map sats utxos" and
    outs: "add_outputs lib tx0 tot target fee0 recipient_address change_address = Inr (tx, fee_sats)"
    unfolding tot_def target_def fee0_def by blast
  from add_outputs_Inr(2) [OF outs] obtain tx1 where
    out: "add_output lib tx0 target recipient_address = Inr tx1" and
    chg: "add_change lib tx1 (tot - target - fee0) fee0 change_address = Inr (tx, fee_sats)"
    by blast
  from add_output_Inr [OF out] o0 have o1: "tx_outputs tx1 = [Output target recipient_address]"
    and i1: "tx_inputs tx1 = tx_inputs tx0" by simp_all
  from add_change_Inr [OF chg] o1 i1 have
    "sum_list (map output_sats (tx_outputs tx)) + fee_sats = tot" and "tx_inputs tx = tx_inputs tx0"
    by simp_all
  with asm hex i0 show ?thesis unfolding tot_def by auto
qed

theorem create_raw_transaction_balance_witness:
  "create_raw_transaction accepting_lib example_recipient target_send_amount_btc 2
     example_selected example_address (Some ''testnet'') ''p2wpkh'' = Inr ([], 292)
   \<and> (\<exists>tx. assemble_transaction accepting_lib example_recipient target_send_amount_btc 2
              example_selected example_address (Some ''testnet'') ''p2wpkh'' = Inr (tx, 292)
          \<and> map input_sats (tx_inputs tx) = [500000]
          \<and> 500000 = sum_list (map output_sats (tx_outputs tx)) + 292)"
proof -
  have s: "map sats example_selected = [500000]"
    by (simp add: example_selected_def sats_def)
  from create_raw_transaction_balance [OF example_run] obtain tx where
    "assemble_transaction accepting_lib example_recipient target_send_amount_btc 2
              example_selected example_address (Some ''testnet'') ''p2wpkh'' = Inr (tx, 292)"
    "map input_sats (tx_inputs tx) = map sats example_selected"
    "sum_list (map sats example_selected) = sum_list (map output_sats (tx_outputs tx)) + 292"
    by blast
  with s example_run show ?thesis by auto
qed

section \<open>The negative-change branch\<close>

text \<open>
  Claim C10. The check of the funds before the outputs are added makes the change
  non-negative, so \<^verbatim>\<open>create_raw_transaction\<close> raises the error \<^verbatim>\<open>Negative change\<close> on no
  input, whatever the library does.
\<close>

theorem no_negative_change_error:
  "assemble_transaction lib recipient_address amount_btc rate utxos change_address network_name
      input_type \<noteq> Inl (ValueError (Negative_change c))
   \<and> create_raw_transaction lib recipient_address amount_btc rate utxos change_address network_name
      input_type \<noteq> Inl (ValueError (Negative_change c))"
proof -
  have a: "assemble_transaction lib recipient_address amount_btc rate utxos change_address network_name
      input_type \<noteq> Inl (ValueError (Negative_change c))"
  proof
    assume h: "assemble_transaction lib recipient_address amount_btc rate utxos change_address
      network_name input_type = Inl (ValueError (Negative_change c))"
    define net where "net = resolve_network_name network_name"
    show False
    proof (cases "check_arguments lib net utxos recipient_address change_address")
      case (Some e)
      with h have "e = ValueError (Negative_change c)"
        by (simp add: assemble_transaction_def net_def)
      with Some show False
        by (auto simp: check_arguments_def split: if_splits option.splits)
    next
      case None
      show False
      proof (cases "add_inputs lib (Transaction net (witness_type_of input_type)) 0 utxos")
        case (Inl e)
        with add_inputs_Inl [OF Inl] h None show False
          by (auto simp: assemble_transaction_def net_def)
      next
        case (Inr r)
        obtain tx0 tot where r: "r = (tx0, tot)" by (cases r)
        with h None Inr add_outputs_not_negative show False
          by (simp add: assemble_transaction_def net_def Let_def)
      qed
    qed
  qed
  then show ?thesis
    by (auto simp: create_raw_transaction_def split: sum.splits)
qed

section \<open>The change policy\<close>

text \<open>
  Claim C2, as amended. For every call of \<^verbatim>\<open>create_raw_transaction\<close> that returns, with
  \<open>change\<close> the total of the inputs minus the target minus the estimated fee: the change
  is not negative; if it is 0, the only output is the recipient's and the fee is the
  estimated fee; if it is below 546, the only output is the recipient's and the fee is
  the estimated fee plus the change; if it is 546 or more and the library accepts the
  change output, the outputs are the recipient's and one of exactly \<open>change\<close> satoshis to
  the change address, and the fee is the estimated fee; if the library refuses that
  output, it did so with a \<^verbatim>\<open>ScriptError\<close>, no change output is added and the fee is the
  estimated fee plus the change.
\<close>

theorem change_policy:
  assumes "create_raw_transaction lib recipient_address amount_btc rate utxos change_address
             network_name input_type = Inr (unsigned_tx_hex, fee_sats)"
  defines "total_in \<equiv> sum_list (map sats utxos)"
      and "target \<equiv> btc_to_satoshi amount_btc"
  defines "estimated \<equiv> preliminary_fee (int (length utxos)) total_in target input_type rate"
  defines "change \<equiv> total_in - target - estimated"
  shows "\<exists>tx. assemble_transaction lib recipient_address amount_btc rate utxos change_address
                 network_name input_type = Inr (tx, fee_sats)
           \<and> unsigned_tx_hex = tx_hex lib tx
           \<and> 0 \<le> change
           \<and> (if change = 0 then
                 tx_outputs tx = [Output target recipient_address] \<and> fee_sats = estimated
               else if change < 546 then
                 tx_outputs tx = [Output target recipient_address] \<and> fee_sats = estimated + change
               else
                 (case output_error lib (resolve_network_name network_name) change change_address of
                    None \<Rightarrow>
                      tx_outputs tx = [Output target recipient_address, Output change change_address]
                      \<and> fee_sats = estimated
                  | Some e \<Rightarrow>
                      (\<exists>text. e = Lib_exn ScriptError_class text)
                      \<and> tx_outputs tx = [Output target recipient_address]
                      \<and> fee_sats = estimated + change))"
proof -
  from create_raw_transaction_Inr [OF assms(1)] obtain tx where
    asm: "assemble_transaction lib recipient_address amount_btc rate utxos change_address
            network_name input_type = Inr (tx, fee_sats)"
    and hex: "unsigned_tx_hex = tx_hex lib tx"
    by blast
  from assemble_transaction_Inr [OF asm] obtain tx0 where
    o0: "tx_outputs tx0 = []" and n0: "tx_network tx0 = resolve_network_name network_name" and
    outs: "add_outputs lib tx0 total_in target estimated recipient_address change_address
             = Inr (tx, fee_sats)"
    unfolding total_in_def target_def estimated_def by blast
  from add_outputs_Inr(1) [OF outs] have nonneg: "0 \<le> change"
    unfolding change_def by simp
  from add_outputs_Inr(2) [OF outs] obtain tx1 where
    out: "add_output lib tx0 target recipient_address = Inr tx1" and
    chg: "add_change lib tx1 change estimated change_address = Inr (tx, fee_sats)"
    unfolding change_def by blast
  from add_output_Inr [OF out] o0 n0 have
    o1: "tx_outputs tx1 = [Output target recipient_address]" and
    n1: "tx_network tx1 = resolve_network_name network_name"
    by simp_all
  from chg o1 n1 nonneg have
    "if change = 0 then
       tx_outputs tx = [Output target recipient_address] \<and> fee_sats = estimated
     else if change < 546 then
       tx_outputs tx = [Output target recipient_address] \<and> fee_sats = estimated + change
     else
       (case output_error lib (resolve_network_name network_name) change change_address of
          None \<Rightarrow>
            tx_outputs tx = [Output target recipient_address, Output change change_address]
            \<and> fee_sats = estimated
        | Some e \<Rightarrow>
            (\<exists>text. e = Lib_exn ScriptError_class text)
            \<and> tx_outputs tx = [Output target recipient_address]
            \<and> fee_sats = estimated + change)"
    by (auto simp: add_change_unfold split: if_splits option.splits lib_exn.splits)
  with asm hex nonneg show ?thesis by blast
qed

lemma example_totals:
  "sum_list (map sats example_selected) = 500000"
  "preliminary_fee 1 500000 200000 ''p2wpkh'' 2 = 292"
  "sum_list (map sats dust_change_utxos) = 200892"
  "preliminary_fee 1 200892 200000 ''p2wpkh'' 2 = 292"
  "int (length example_selected) = 1"
  "resolve_network_name (Some ''testnet'') = ''testnet''"
  "output_error accepting_lib network v address = None"
  by (simp_all add: example_selected_def dust_change_utxos_def sats_def preliminary_fee_def
      estimate_transaction_size_def resolve_network_name_def accepting_lib_def)

theorem change_policy_witness:
  "create_raw_transaction accepting_lib example_recipient target_send_amount_btc 2
     example_selected example_address (Some ''testnet'') ''p2wpkh'' = Inr ([], 292)
   \<and> (\<exists>tx. assemble_transaction accepting_lib example_recipient target_send_amount_btc 2
              example_selected example_address (Some ''testnet'') ''p2wpkh'' = Inr (tx, 292)
          \<and> tx_outputs tx = [Output 200000 example_recipient, Output 299708 example_address])"
  using change_policy [OF example_run, unfolded target_sats_example example_totals] example_run
  by auto

text \<open>
  The claim as stated fails where the library's dust limit is above 546 satoshis: with a
  limit of 1000, a change of 600 satoshis is refused as an output and goes to the fee.
\<close>

theorem change_policy_counterexample:
  "sum_list (map sats dust_change_utxos) - btc_to_satoshi target_send_amount_btc
     - preliminary_fee 1 (sum_list (map sats dust_change_utxos))
         (btc_to_satoshi target_send_amount_btc) ''p2wpkh'' 2 = 600
   \<and> (546 :: int) \<le> 600
   \<and> assemble_transaction dust_1000_lib example_recipient target_send_amount_btc 2
        dust_change_utxos example_address (Some ''testnet'') ''p2wpkh''
      = Inr (\<lparr> tx_network = ''testnet'', tx_witness_type = Some ''segwit'',
               tx_inputs = [Input ''deadbeef00000000000000000000000000000000000000000000000000000000''
                              0 200892],
               tx_outputs = [Output 200000 example_recipient] \<rparr>, 892)
   \<and> create_raw_transaction dust_1000_lib example_recipient target_send_amount_btc 2
        dust_change_utxos example_address (Some ''testnet'') ''p2wpkh'' = Inr ([], 892)"
  by (simp add: run_defs example_totals target_sats_example dust_change_utxos_def
      example_utxo_1_def dust_1000_lib_def)

section \<open>The size estimators\<close>

lemmas select_defs = select_utxos_for_amount_def has_selection_keys_def sort_largest_first_def
  sats_def with_sats_def estimate_transaction_size_def

lemma example_amounts:
  "btc_to_satoshi (Decimal False 5 (- 3)) = 500000"
  "btc_to_satoshi (Decimal False 3 (- 3)) = 300000"
  by (simp_all add: decimal_defs)


lemma example_selection_p2wpkh_outputs:
  "select_utxos_for_amount example_utxos_p2wpkh 200000 2 ''p2wpkh'' ''p2wpkh''
     = Inr (example_selected, 500000, 292)"
  by (simp add: select_defs example_utxos_p2wpkh_def example_utxo_1_def example_utxo_2_def
      example_selected_def example_amounts)

text \<open>
  Claim C4, as amended. The estimator that selection and assembly call,
  \<^verbatim>\<open>estimate_transaction_size\<close>, returns the number of inputs times the input unit (68
  for P2WPKH, 148 for P2PKH, 100 otherwise) plus 34 for every output whatever its type,
  plus 10, whatever the counts. The table with output units 34, 31 and 32 (34 for any
  other type) and with 2 more bytes of overhead for more than 252 inputs, and for more
  than 252 outputs, is that of \<^verbatim>\<open>estimate_transaction_size_bytes\<close> of the fee module,
  whose fee is this size times the given rate, or times the default rate of 10. The fee
  that assembly computes is the size of the called estimator times the rate.
\<close>

theorem size_estimators:
  "estimate_transaction_size num_inputs num_outputs input_type output_type =
     num_inputs * (if input_type = ''p2wpkh'' then 68 else if input_type = ''p2pkh'' then 148 else 100)
     + num_outputs * 34 + 10
   \<and> estimate_transaction_size_bytes num_inputs num_outputs input_type output_type =
     num_inputs * (if input_type = ''p2wpkh'' then 68 else if input_type = ''p2pkh'' then 148 else 100)
     + num_outputs * (if output_type = ''p2pkh'' then 34 else if output_type = ''p2wpkh'' then 31
                      else if output_type = ''p2sh'' then 32 else 34)
     + (10 + (if num_inputs > 252 then 2 else 0) + (if num_outputs > 252 then 2 else 0))
   \<and> total_fee_sats (estimate_fee_details num_inputs num_outputs input_type output_type (Some rate)) =
     estimate_transaction_size_bytes num_inputs num_outputs input_type output_type * rate
   \<and> total_fee_sats (estimate_fee_details num_inputs num_outputs input_type output_type None) =
     estimate_transaction_size_bytes num_inputs num_outputs input_type output_type * 10
   \<and> preliminary_fee num_inputs total_input_sats target_sats input_type rate =
     estimate_transaction_size num_inputs (if total_input_sats - target_sats > 0 then 2 else 1)
       input_type ''p2pkh'' * rate"
  by (simp add: estimate_transaction_size_def estimate_transaction_size_bytes_def
      estimate_fee_details_def preliminary_fee_def DEFAULT_FEE_SATS_PER_BYTE_def Let_def)

text \<open>
  The called estimator does not follow the table of the claim: two P2WPKH outputs count
  68 bytes and not 62, 253 inputs leave the overhead at 10, and the fee that selection
  returns for P2WPKH outputs is 292 and not 280.
\<close>

theorem size_estimator_counterexample:
  "estimate_transaction_size 1 2 ''p2wpkh'' ''p2wpkh'' = 146
   \<and> (146 :: int) \<noteq> 1 * 68 + 2 * 31 + 10
   \<and> estimate_transaction_size 253 1 ''p2wpkh'' ''p2pkh'' = 17248
   \<and> (17248 :: int) \<noteq> 253 * 68 + 1 * 34 + (10 + 2)
   \<and> select_utxos_for_amount example_utxos_p2wpkh 200000 2 ''p2wpkh'' ''p2wpkh''
        = Inr (example_selected, 500000, 292)
   \<and> (292 :: int) \<noteq> (1 * 68 + 2 * 31 + 10) * 2"
  using example_selection_p2wpkh_outputs by (simp add: estimate_transaction_size_def)

section \<open>The example payment\<close>



section \<open>Selection under sufficient funds\<close>

lemma utxos_with_sats_Inr:
  "list_all has_selection_keys us \<Longrightarrow> utxos_with_sats i us = Inr (map with_sats us)"
  by (induction us arbitrary: i) (simp_all add: with_sats_def)

lemma utxos_with_sats_keys:
  "utxos_with_sats i us = Inr copies \<Longrightarrow> list_all (\<lambda>u. satoshi_amount u \<noteq> None) copies"
  by (induction us arbitrary: i copies) (auto simp: with_sats_def split: if_splits sum.splits)

lemma sats_with_sats: "sats (with_sats u) = btc_to_satoshi (the (amount u))"
  by (simp add: sats_def with_sats_def)

lemma sum_insort_key:
  "sum_list (map f (insort_key k x xs)) = (f x :: int) + sum_list (map f xs)"
  by (induction xs) simp_all

lemma sum_sort_key: "sum_list (map f (sort_key k xs)) = (sum_list (map f xs) :: int)"
  by (induction xs) (simp_all add: sum_insort_key)

lemma sum_sort_largest_first:
  "sum_list (map sats (sort_largest_first us)) = sum_list (map sats us)"
  by (simp add: sort_largest_first_def sum_sort_key)

lemma length_sort_largest_first: "length (sort_largest_first us) = length us"
  by (simp add: sort_largest_first_def)

lemma select_loop_result:
  assumes "select_loop t r it ot us sel tot0 fee0 = (sel', tot', fee')" and "us \<noteq> []"
  shows "fee' = estimate_transaction_size (int (length sel')) 2 it ot * r
       \<and> tot' - tot0 = sum_list (map sats sel') - sum_list (map sats sel)
       \<and> sel' \<noteq> []
       \<and> (t + fee' \<le> tot'
           \<or> (length sel' = length sel + length us \<and> tot' = tot0 + sum_list (map sats us)))"
  using assms
proof (induction us arbitrary: sel tot0 fee0)
  case Nil
  then show ?case by simp
next
  case (Cons u rest)
  define fee1 where "fee1 = estimate_transaction_size (int (length (sel @ [u]))) 2 it ot * r"
  show ?case
  proof (cases "t + fee1 \<le> tot0 + sats u")
    case True
    with Cons.prems(1) show ?thesis
      by (auto simp: fee1_def Let_def)
  next
    case False
    with Cons.prems(1) have
      rec: "select_loop t r it ot rest (sel @ [u]) (tot0 + sats u) fee1 = (sel', tot', fee')"
      by (simp add: fee1_def Let_def)
    show ?thesis
    proof (cases rest)
      case Nil
      with rec show ?thesis by (auto simp: fee1_def)
    next
      case (Cons v rest')
      then have "rest \<noteq> []" by simp
      from Cons.IH [OF rec this] show ?thesis by auto
    qed
  qed
qed

lemma estimate_one_le_two:
  "0 \<le> r \<Longrightarrow> estimate_transaction_size n 1 it ot * r \<le> estimate_transaction_size n 2 it ot * r"
  by (simp add: estimate_transaction_size_def mult_right_mono)

text \<open>
  Claim C3, as amended. For every non-empty UTXO list whose elements all carry
  \<^verbatim>\<open>txid\<close>, \<^verbatim>\<open>vout\<close>, \<^verbatim>\<open>amount\<close> and \<^verbatim>\<open>scriptPubKey\<close>, every fee rate that is not
  negative and every target such that the total satoshi value of the list is at least the
  target plus the fee of spending all of its UTXOs with one output,
  \<^verbatim>\<open>select_utxos_for_amount\<close> returns a selection, its total and a fee with the total at
  least the target plus the fee. The total is the sum of the satoshi values of the
  selection, which is not empty. (The function is total: it terminates on every input.)
\<close>

theorem select_utxos_sufficient:
  assumes "utxos \<noteq> []"
      and "list_all has_selection_keys utxos"
      and "0 \<le> rate"
      and "target + estimate_transaction_size (int (length utxos)) 1 input_type output_type * rate
             \<le> sum_list (map (\<lambda>u. btc_to_satoshi (the (amount u))) utxos)"
  shows "\<exists>selected total_selected fee.
           select_utxos_for_amount utxos target rate input_type output_type
             = Inr (selected, total_selected, fee)
           \<and> target + fee \<le> total_selected
           \<and> total_selected = sum_list (map sats selected)
           \<and> selected \<noteq> []"
proof -
  define sorted_utxos where "sorted_utxos = sort_largest_first (map with_sats utxos)"
  have ws: "utxos_with_sats 0 utxos = Inr (map with_sats utxos)"
    using assms(2) by (rule utxos_with_sats_Inr)
  have len: "length sorted_utxos = length utxos"
    by (simp add: sorted_utxos_def length_sort_largest_first)
  have "sum_list (map sats (map with_sats utxos))
          = sum_list (map (\<lambda>u. btc_to_satoshi (the (amount u))) utxos)"
    by (simp add: o_def sats_with_sats)
  then have all: "sum_list (map sats sorted_utxos)
          = sum_list (map (\<lambda>u. btc_to_satoshi (the (amount u))) utxos)"
    by (simp add: sorted_utxos_def sum_sort_largest_first)
  from assms(1) len have ne: "sorted_utxos \<noteq> []" by auto
  obtain sel tot est where
    loop: "select_loop target rate input_type output_type sorted_utxos [] 0 0 = (sel, tot, est)"
    by (cases "select_loop target rate input_type output_type sorted_utxos [] 0 0") auto
  from select_loop_result [OF loop ne] have
    est: "est = estimate_transaction_size (int (length sel)) 2 input_type output_type * rate" and
    tot: "tot = sum_list (map sats sel)" and sel: "sel \<noteq> []" and
    stop: "target + est \<le> tot
           \<or> (length sel = length sorted_utxos \<and> tot = sum_list (map sats sorted_utxos))"
    by auto
  define final where "final =
    estimate_transaction_size (int (length sel))
      (if tot > target + est then 2 else if tot = target + est then 1 else 1)
      input_type output_type * rate"
  have one_two: "estimate_transaction_size (int (length sel)) 1 input_type output_type * rate \<le> est"
    unfolding est using assms(3) by (rule estimate_one_le_two)
  have enough: "target + final \<le> tot"
  proof (cases "target + est \<le> tot")
    case True
    with one_two show ?thesis by (auto simp: final_def est)
  next
    case False
    with stop have "length sel = length utxos" and
      "tot = sum_list (map (\<lambda>u. btc_to_satoshi (the (amount u))) utxos)"
      by (simp_all add: len all)
    with False assms(4) show ?thesis by (simp add: final_def)
  qed
  from assms(1) ws loop enough have
    "select_utxos_for_amount utxos target rate input_type output_type = Inr (sel, tot, final)"
    by (simp add: select_utxos_for_amount_def sorted_utxos_def final_def Let_def)
  with enough tot sel show ?thesis by blast
qed

lemma example_total:
  "sum_list (map (\<lambda>u. btc_to_satoshi (the (amount u))) example_utxos_p2wpkh) = 800000"
  by (simp add: example_utxos_p2wpkh_def example_utxo_1_def example_utxo_2_def example_amounts)

theorem select_utxos_sufficient_witness:
  "example_utxos_p2wpkh \<noteq> []
   \<and> list_all has_selection_keys example_utxos_p2wpkh
   \<and> (0 :: int) \<le> 2
   \<and> 200000 + estimate_transaction_size (int (length example_utxos_p2wpkh)) 1 ''p2wpkh'' ''p2pkh'' * 2
        \<le> sum_list (map (\<lambda>u. btc_to_satoshi (the (amount u))) example_utxos_p2wpkh)
   \<and> (\<exists>selected total_selected fee.
         select_utxos_for_amount example_utxos_p2wpkh 200000 2 ''p2wpkh'' ''p2pkh''
           = Inr (selected, total_selected, fee)
         \<and> 200000 + fee \<le> total_selected)"
proof -
  have h1: "example_utxos_p2wpkh \<noteq> []"
    by (simp add: example_utxos_p2wpkh_def)
  have h2: "list_all has_selection_keys example_utxos_p2wpkh"
    by (simp add: example_utxos_p2wpkh_def example_utxo_1_def example_utxo_2_def
        has_selection_keys_def)
  have h3: "(0 :: int) \<le> 2" by simp
  have h4: "200000 + estimate_transaction_size (int (length example_utxos_p2wpkh)) 1
              ''p2wpkh'' ''p2pkh'' * 2
            \<le> sum_list (map (\<lambda>u. btc_to_satoshi (the (amount u))) example_utxos_p2wpkh)"
    unfolding example_total
    by (simp add: example_utxos_p2wpkh_def estimate_transaction_size_def)
  from select_utxos_sufficient [OF h1 h2 h3 h4] h1 h2 h3 h4 show ?thesis by blast
qed

lemma dust_amounts:
  "btc_to_satoshi (Decimal False 10000 (- 8)) = 10000"
  "btc_to_satoshi (Decimal False 1 (- 8)) = 1"
  "btc_to_satoshi (Decimal False (Suc 0) (- 8)) = 1"
  by (simp_all add: decimal_defs)

text \<open>
  The claim as stated fails for the smallest fee a transaction can have, that of one input
  and one output. At 1 satoshi per byte that fee is 112 satoshis; the UTXO of 10000
  satoshis alone pays a target of 9888 satoshis at exactly that fee, and the three UTXOs
  together hold 10002 satoshis, yet selection from the three raises: it estimates with
  two outputs while it adds UTXOs, so it goes on to add the two UTXOs of 1 satoshi, each
  of which costs 68 satoshis of fee.
\<close>

theorem select_utxos_counterexample:
  "dust_utxos \<noteq> []
   \<and> list_all has_selection_keys dust_utxos
   \<and> sum_list (map (\<lambda>u. btc_to_satoshi (the (amount u))) dust_utxos) = 10002
   \<and> estimate_transaction_size 1 1 ''p2wpkh'' ''p2pkh'' * 1 = 112
   \<and> (9888 :: int) + 112 \<le> 10002
   \<and> select_utxos_for_amount [utxo_of_sats 0 10000] 9888 1 ''p2wpkh'' ''p2pkh''
        = Inr ([(utxo_of_sats 0 10000)\<lparr>satoshi_amount := Some 10000\<rparr>], 10000, 112)
   \<and> select_utxos_for_amount dust_utxos 9888 1 ''p2wpkh'' ''p2pkh''
        = Inl (ValueError (Insufficient_funds 10136 10002 3 248))"
  by (simp add: select_defs dust_utxos_def utxo_of_sats_def dust_amounts)

section \<open>The round trip of the key data and the salt\<close>

lemma encrypt_key_data_Inr:
  "json_dumps lib data = Inr serialized \<Longrightarrow>
     encrypt_key_data lib salt nonce data password
       = Inr (salt @ fernet_encrypt lib (derive_encryption_key lib password salt) nonce serialized)"
  by (simp add: encrypt_key_data_def)

text \<open>
  Claim C5, as amended. For key data that json serializes, a 16-byte salt and a Fernet
  that decrypts the token it has made under the same key, \<^verbatim>\<open>encrypt_key_data\<close> returns
  a container that starts with the salt, and \<^verbatim>\<open>decrypt_key_data\<close> of that container
  with the same password returns what json reads back from the serialized key data; so
  does \<^verbatim>\<open>load_encrypted_key\<close> from a file that holds the container. The result is the
  original key data for every dictionary that json reads back as it was serialized.
\<close>

theorem encrypt_decrypt_roundtrip:
  assumes "length salt = 16"
      and "json_dumps lib data = Inr serialized"
      and "fernet_decrypt lib (derive_encryption_key lib password salt)
             (fernet_encrypt lib (derive_encryption_key lib password salt) nonce serialized)
           = Inr serialized"
  shows "\<exists>container.
           encrypt_key_data lib salt nonce data password = Inr container
           \<and> take 16 container = salt
           \<and> decrypt_key_data lib container password = json_loads lib serialized
           \<and> load_encrypted_key lib (files(filepath \<mapsto> container)) filepath password
               = (case json_loads lib serialized of
                    Inr key_data \<Rightarrow> Inr key_data
                  | Inl e \<Rightarrow> Inl (ValueError (Failed_to_decrypt e)))
           \<and> (json_loads lib serialized = Inr data \<longrightarrow>
                 decrypt_key_data lib container password = Inr data
                 \<and> load_encrypted_key lib (files(filepath \<mapsto> container)) filepath password
                     = Inr data)"
proof -
  define container where "container =
    salt @ fernet_encrypt lib (derive_encryption_key lib password salt) nonce serialized"
  have enc: "encrypt_key_data lib salt nonce data password = Inr container"
    unfolding container_def using assms(2) by (rule encrypt_key_data_Inr)
  have split: "take 16 container = salt"
    "drop 16 container = fernet_encrypt lib (derive_encryption_key lib password salt) nonce serialized"
    using assms(1) by (simp_all add: container_def)
  have dec: "decrypt_key_data lib container password = json_loads lib serialized"
    using assms(3) by (simp add: decrypt_key_data_def split)
  have load: "load_encrypted_key lib (files(filepath \<mapsto> container)) filepath password
               = (case json_loads lib serialized of
                    Inr key_data \<Rightarrow> Inr key_data
                  | Inl e \<Rightarrow> Inl (ValueError (Failed_to_decrypt e)))"
    by (simp add: load_encrypted_key_def dec)
  have same: "json_loads lib serialized = Inr data \<longrightarrow>
                 decrypt_key_data lib container password = Inr data
                 \<and> load_encrypted_key lib (files(filepath \<mapsto> container)) filepath password
                     = Inr data"
    by (simp add: dec load)
  from enc split(1) dec load same show ?thesis by blast
qed


lemma json_lib_fields:
  "json_dumps json_lib d = python_json_dumps d"
  "json_loads json_lib payload = python_json_loads payload"
  "derive_encryption_key json_lib password salt = password @ salt"
  "fernet_encrypt json_lib key nonce plaintext = key @ plaintext"
  "fernet_decrypt json_lib key (key @ plaintext) = Inr plaintext"
  by (simp_all add: json_lib_def derive_encryption_key_def)

lemma int_key_dumps: "python_json_dumps int_key_data = Inr int_key_json"
  by (simp add: python_json_dumps_def int_key_data_def int_key_json_def quoted_def int_text_def
      nat_text.simps)

lemma str_key_dumps: "python_json_dumps str_key_data = Inr int_key_json"
  by (simp add: python_json_dumps_def str_key_data_def int_key_json_def quoted_def)

lemma int_key_loads: "python_json_loads int_key_json = Inr str_key_data"
  by (simp add: python_json_loads_def int_key_json_def str_key_data_def dq_def)

theorem encrypt_decrypt_roundtrip_witness:
  "length salt_a = 16
   \<and> json_dumps json_lib str_key_data = Inr int_key_json
   \<and> json_loads json_lib int_key_json = Inr str_key_data
   \<and> encrypt_key_data json_lib salt_a [] str_key_data ''supersecretpassword''
        = Inr (salt_a @ (''supersecretpassword'' @ salt_a) @ int_key_json)
   \<and> decrypt_key_data json_lib (salt_a @ (''supersecretpassword'' @ salt_a) @ int_key_json)
        ''supersecretpassword'' = Inr str_key_data"
proof -
  have h1: "length salt_a = 16" by (simp add: salt_a_def)
  have h2: "json_dumps json_lib str_key_data = Inr int_key_json"
    by (simp only: json_lib_fields str_key_dumps)
  have h3: "json_loads json_lib int_key_json = Inr str_key_data"
    by (simp only: json_lib_fields int_key_loads)
  have enc: "encrypt_key_data json_lib salt_a [] str_key_data ''supersecretpassword''
        = Inr (salt_a @ (''supersecretpassword'' @ salt_a) @ int_key_json)"
    using h2 by (simp add: encrypt_key_data_def json_lib_fields)
  have h4: "fernet_decrypt json_lib (derive_encryption_key json_lib ''supersecretpassword'' salt_a)
             (fernet_encrypt json_lib
                (derive_encryption_key json_lib ''supersecretpassword'' salt_a) [] int_key_json)
           = Inr int_key_json"
    by (simp only: json_lib_fields)
  from encrypt_decrypt_roundtrip [OF h1 h2 h4]
  obtain container where
    "encrypt_key_data json_lib salt_a [] str_key_data ''supersecretpassword'' = Inr container"
    "json_loads json_lib int_key_json = Inr str_key_data \<longrightarrow>
       decrypt_key_data json_lib container ''supersecretpassword'' = Inr str_key_data"
    by blast
  with enc h3 have
    "decrypt_key_data json_lib (salt_a @ (''supersecretpassword'' @ salt_a) @ int_key_json)
        ''supersecretpassword'' = Inr str_key_data"
    by simp
  with h1 h2 h3 enc show ?thesis by blast
qed

text \<open>
  The claim as stated fails for a dictionary that json serializes and does not read back
  as it was: the key of \<^verbatim>\<open>{1: 'a'}\<close> is written as \<^verbatim>\<open>"1"\<close> and read as a string, so
  decryption of its container returns \<^verbatim>\<open>{'1': 'a'}\<close>.
\<close>

theorem encrypt_decrypt_counterexample:
  "json_dumps json_lib int_key_data = Inr int_key_json
   \<and> encrypt_key_data json_lib salt_a [] int_key_data ''supersecretpassword''
        = Inr (salt_a @ (''supersecretpassword'' @ salt_a) @ int_key_json)
   \<and> decrypt_key_data json_lib (salt_a @ (''supersecretpassword'' @ salt_a) @ int_key_json)
        ''supersecretpassword'' = Inr str_key_data
   \<and> str_key_data \<noteq> int_key_data"
proof -
  have d: "json_dumps json_lib int_key_data = Inr int_key_json"
    by (simp only: json_lib_fields int_key_dumps)
  then have e: "encrypt_key_data json_lib salt_a [] int_key_data ''supersecretpassword''
        = Inr (salt_a @ (''supersecretpassword'' @ salt_a) @ int_key_json)"
    by (simp add: encrypt_key_data_def json_lib_fields)
  have split: "take 16 (salt_a @ (''supersecretpassword'' @ salt_a) @ int_key_json) = salt_a"
    "drop 16 (salt_a @ (''supersecretpassword'' @ salt_a) @ int_key_json)
       = (''supersecretpassword'' @ salt_a) @ int_key_json"
    by (simp_all add: salt_a_def)
  have r: "decrypt_key_data json_lib (salt_a @ (''supersecretpassword'' @ salt_a) @ int_key_json)
        ''supersecretpassword'' = Inr str_key_data"
    unfolding decrypt_key_data_def split Let_def
    by (simp only: json_lib_fields int_key_loads sum.case)
  have n: "str_key_data \<noteq> int_key_data"
    by (simp add: str_key_data_def int_key_data_def)
  from d e r n show ?thesis by blast
qed




section \<open>The classes of the failures\<close>

lemma utxos_with_sats_Inl:
  "utxos_with_sats i us = Inl e \<Longrightarrow> \<exists>m. e = ValueError m"
  by (induction us arbitrary: i) (auto split: if_splits sum.splits)

lemma select_utxos_Inl:
  assumes "select_utxos_for_amount utxos target rate it ot = Inl e"
  shows "\<exists>m. e = ValueError m"
proof (cases "utxos = []")
  case True
  with assms show ?thesis by (auto simp: select_utxos_for_amount_def)
next
  case False
  show ?thesis
  proof (cases "utxos_with_sats 0 utxos")
    case (Inl e')
    with assms False have "e = e'" by (simp add: select_utxos_for_amount_def)
    with utxos_with_sats_Inl [OF Inl] show ?thesis by simp
  next
    case (Inr copies)
    obtain sel tot est where
      "select_loop target rate it ot (sort_largest_first copies) [] 0 0 = (sel, tot, est)"
      by (cases "select_loop target rate it ot (sort_largest_first copies) [] 0 0") auto
    with assms False Inr show ?thesis
      by (auto simp: select_utxos_for_amount_def Let_def split: if_splits)
  qed
qed

lemma check_arguments_Some:
  "check_arguments lib net utxos ra ca = Some e \<Longrightarrow> \<exists>m. e = ValueError m"
  by (auto simp: check_arguments_def split: if_splits option.splits)

lemma create_raw_transaction_Inl:
  assumes "create_raw_transaction lib ra amt rate utxos ca nn it = Inl e"
  shows "(\<exists>m. e = ValueError m) \<or> (\<exists>l. e = Propagated l)"
proof -
  from assms have asm: "assemble_transaction lib ra amt rate utxos ca nn it = Inl e"
    by (auto simp: create_raw_transaction_def split: sum.splits)
  define net where "net = resolve_network_name nn"
  show ?thesis
  proof (cases "check_arguments lib net utxos ra ca")
    case (Some e')
    with asm have "e = e'" by (simp add: assemble_transaction_def net_def)
    with check_arguments_Some [OF Some] show ?thesis by simp
  next
    case None
    show ?thesis
    proof (cases "add_inputs lib (Transaction net (witness_type_of it)) 0 utxos")
      case (Inl e')
      with asm None have "e = e'" by (simp add: assemble_transaction_def net_def)
      with add_inputs_Inl [OF Inl] show ?thesis by simp
    next
      case (Inr r)
      obtain tx0 tot where r: "r = (tx0, tot)" by (cases r)
      from asm None Inr r have
        "add_outputs lib tx0 tot (btc_to_satoshi amt)
           (preliminary_fee (int (length utxos)) tot (btc_to_satoshi amt) it rate) ra ca = Inl e"
        by (simp add: assemble_transaction_def net_def Let_def)
      then show ?thesis
      proof (cases e)
        case (FileNotFoundError m)
        with \<open>add_outputs lib tx0 tot (btc_to_satoshi amt)
           (preliminary_fee (int (length utxos)) tot (btc_to_satoshi amt) it rate) ra ca = Inl e\<close>
        show ?thesis
          by (auto simp: add_outputs_def add_change_unfold final_check_def Let_def
              split: if_splits sum.splits option.splits lib_exn.splits prod.splits)
      qed auto
    qed
  qed
qed

lemma load_encrypted_key_Inl:
  "load_encrypted_key lib files filepath password = Inl e \<Longrightarrow>
     (files filepath = None \<and> e = FileNotFoundError (Wallet_file_not_found filepath))
     \<or> (\<exists>c l. files filepath = Some c \<and> decrypt_key_data lib c password = Inl l
              \<and> e = ValueError (Failed_to_decrypt l))"
  by (auto simp: load_encrypted_key_def split: option.splits sum.splits)


lemma utxos_with_sats_missing:
  "\<not> list_all has_selection_keys us \<Longrightarrow>
     \<exists>j. utxos_with_sats i us = Inl (ValueError (UTXO_missing_keys j))"
proof (induction us arbitrary: i)
  case Nil
  then show ?case by simp
next
  case (Cons u us)
  show ?case
  proof (cases "has_selection_keys u")
    case True
    with Cons.prems have "\<not> list_all has_selection_keys us" by simp
    from Cons.IH [OF this, of "Suc i"] True show ?thesis by auto
  next
    case False
    then show ?thesis by auto
  qed
qed

lemma select_utxos_missing:
  "utxos \<noteq> [] \<Longrightarrow> \<not> list_all has_selection_keys utxos \<Longrightarrow>
     \<exists>j. select_utxos_for_amount utxos target rate it ot = Inl (ValueError (UTXO_missing_keys j))"
  using utxos_with_sats_missing [of utxos 0]
  by (auto simp: select_utxos_for_amount_def)

lemma create_raw_transaction_check:
  "check_arguments lib (resolve_network_name nn) utxos ra ca = Some e \<Longrightarrow>
     create_raw_transaction lib ra amt rate utxos ca nn it = Inl e"
  by (simp add: create_raw_transaction_def assemble_transaction_def)

text \<open>
  Claim C9, as amended. The failures of the core operations share one exception class:
  every exception of \<^verbatim>\<open>select_utxos_for_amount\<close> (a UTXO that lacks a key, insufficient
  funds) is a \<^verbatim>\<open>ValueError\<close>; every failed check of the arguments of
  \<^verbatim>\<open>create_raw_transaction\<close> (unsupported network, no UTXO, a UTXO that lacks a key,
  an invalid address) is a \<^verbatim>\<open>ValueError\<close>, and every exception of that function is a
  \<^verbatim>\<open>ValueError\<close> or an exception of the library that it does not catch; every failure
  of \<^verbatim>\<open>load_encrypted_key\<close> on a file that exists is a \<^verbatim>\<open>ValueError\<close> that wraps
  whatever the decryption raised. The causes differ in the message only.
\<close>

theorem failures_are_value_errors:
  "(\<forall>e. select_utxos_for_amount utxos target rate input_type output_type = Inl e
        \<longrightarrow> class_of e = ValueError_class)
   \<and> (utxos \<noteq> [] \<and> \<not> list_all has_selection_keys utxos
        \<longrightarrow> (\<exists>j. select_utxos_for_amount utxos target rate input_type output_type
                   = Inl (ValueError (UTXO_missing_keys j))))
   \<and> (\<forall>e. check_arguments lib (resolve_network_name network_name) spent recipient_address
              change_address = Some e
        \<longrightarrow> class_of e = ValueError_class
            \<and> create_raw_transaction lib recipient_address amount_btc rate spent change_address
                 network_name input_type = Inl e)
   \<and> (\<forall>e. create_raw_transaction lib recipient_address amount_btc rate spent change_address
              network_name input_type = Inl e
        \<longrightarrow> class_of e = ValueError_class \<or> (\<exists>l. e = Propagated l))
   \<and> (\<forall>e container. files filepath = Some container
        \<longrightarrow> load_encrypted_key crypto files filepath password = Inl e
        \<longrightarrow> (\<exists>l. decrypt_key_data crypto container password = Inl l
                  \<and> e = ValueError (Failed_to_decrypt l))
            \<and> class_of e = ValueError_class)"
proof (intro conjI allI impI)
  fix e
  assume "select_utxos_for_amount utxos target rate input_type output_type = Inl e"
  from select_utxos_Inl [OF this] show "class_of e = ValueError_class" by auto
next
  assume "utxos \<noteq> [] \<and> \<not> list_all has_selection_keys utxos"
  then show "\<exists>j. select_utxos_for_amount utxos target rate input_type output_type
                   = Inl (ValueError (UTXO_missing_keys j))"
    using select_utxos_missing by blast
next
  fix e
  assume c: "check_arguments lib (resolve_network_name network_name) spent recipient_address
              change_address = Some e"
  from check_arguments_Some [OF c] show "class_of e = ValueError_class" by auto
  from c show "create_raw_transaction lib recipient_address amount_btc rate spent change_address
                 network_name input_type = Inl e"
    by (rule create_raw_transaction_check)
next
  fix e
  assume "create_raw_transaction lib recipient_address amount_btc rate spent change_address
              network_name input_type = Inl e"
  from create_raw_transaction_Inl [OF this]
  show "class_of e = ValueError_class \<or> (\<exists>l. e = Propagated l)" by auto
next
  fix e container
  assume f: "files filepath = Some container"
    and l: "load_encrypted_key crypto files filepath password = Inl e"
  from load_encrypted_key_Inl [OF l] f
  show "\<exists>l. decrypt_key_data crypto container password = Inl l
                  \<and> e = ValueError (Failed_to_decrypt l)"
    by auto
  then show "class_of e = ValueError_class" by auto
qed

lemma wrong_password_load:
  "load_encrypted_key plain_lib [''wallet.dat'' \<mapsto> example_container] ''wallet.dat''
     ''wrongpassword'' = Inl (ValueError (Failed_to_decrypt (Lib_exn InvalidToken_class [])))"
  by (simp add: load_encrypted_key_def decrypt_key_data_def derive_encryption_key_def
      plain_lib_def example_container_def salt_a_def)

lemma malformed_selection:
  "select_utxos_for_amount [malformed_utxo] 200000 2 ''p2wpkh'' ''p2pkh''
     = Inl (ValueError (UTXO_missing_keys 0))"
  by (simp add: select_defs malformed_utxo_def example_utxo_1_def)

theorem failures_are_value_errors_witness:
  "[malformed_utxo] \<noteq> [] \<and> \<not> list_all has_selection_keys [malformed_utxo]
   \<and> select_utxos_for_amount [malformed_utxo] 200000 2 ''p2wpkh'' ''p2pkh''
        = Inl (ValueError (UTXO_missing_keys 0))
   \<and> [''wallet.dat'' \<mapsto> example_container] ''wallet.dat'' = Some example_container
   \<and> load_encrypted_key plain_lib [''wallet.dat'' \<mapsto> example_container] ''wallet.dat''
        ''wrongpassword'' = Inl (ValueError (Failed_to_decrypt (Lib_exn InvalidToken_class [])))
   \<and> decrypt_key_data plain_lib example_container ''wrongpassword''
        = Inl (Lib_exn InvalidToken_class [])"
proof -
  have f: "[''wallet.dat'' \<mapsto> example_container] ''wallet.dat'' = Some example_container"
    by simp
  have m: "\<not> list_all has_selection_keys [malformed_utxo]"
    by (simp add: malformed_utxo_def has_selection_keys_def)
  from failures_are_value_errors
    [where files = "[''wallet.dat'' \<mapsto> example_container]" and filepath = "''wallet.dat''"
       and crypto = plain_lib and password = "''wrongpassword''"]
    f wrong_password_load
  have "decrypt_key_data plain_lib example_container ''wrongpassword''
        = Inl (Lib_exn InvalidToken_class [])"
    by auto
  with f m wrong_password_load malformed_selection show ?thesis by simp
qed

text \<open>
  Five failures of five causes (a malformed UTXO, insufficient funds, an invalid address,
  an unsupported network, a wrong password), all of the class \<^verbatim>\<open>ValueError\<close>: the class
  does not tell them apart.
\<close>

theorem error_kinds_counterexample:
  "select_utxos_for_amount [malformed_utxo] 200000 2 ''p2wpkh'' ''p2pkh''
     = Inl (ValueError (UTXO_missing_keys 0))
   \<and> select_utxos_for_amount example_utxos_p2wpkh 1000000 2 ''p2wpkh'' ''p2pkh''
     = Inl (ValueError (Insufficient_funds 1000360 800000 2 360))
   \<and> create_raw_transaction rejecting_lib example_recipient target_send_amount_btc 2
       example_selected example_address (Some ''testnet'') ''p2wpkh''
     = Inl (ValueError (Invalid_address ''testnet'' (Lib_exn ValueError_class ''address'')))
   \<and> create_raw_transaction accepting_lib example_recipient target_send_amount_btc 2
       example_selected example_address (Some ''bitcoin_testnet'') ''p2wpkh''
     = Inl (ValueError (Network_not_recognized ''bitcoin_testnet''))
   \<and> load_encrypted_key plain_lib [''wallet.dat'' \<mapsto> example_container] ''wallet.dat''
       ''wrongpassword''
     = Inl (ValueError (Failed_to_decrypt (Lib_exn InvalidToken_class [])))
   \<and> list_all (\<lambda>e. class_of e = ValueError_class)
       [ValueError (UTXO_missing_keys 0),
        ValueError (Insufficient_funds 1000360 800000 2 360),
        ValueError (Invalid_address ''testnet'' (Lib_exn ValueError_class ''address'')),
        ValueError (Network_not_recognized ''bitcoin_testnet''),
        ValueError (Failed_to_decrypt (Lib_exn InvalidToken_class []))]"
proof -
  have a: "select_utxos_for_amount example_utxos_p2wpkh 1000000 2 ''p2wpkh'' ''p2pkh''
     = Inl (ValueError (Insufficient_funds 1000360 800000 2 360))"
    by (simp add: select_defs example_utxos_p2wpkh_def example_utxo_1_def example_utxo_2_def
        example_amounts)
  have b: "create_raw_transaction rejecting_lib example_recipient target_send_amount_btc 2
       example_selected example_address (Some ''testnet'') ''p2wpkh''
     = Inl (ValueError (Invalid_address ''testnet'' (Lib_exn ValueError_class ''address'')))"
    by (simp add: run_defs rejecting_lib_def example_selected_def example_utxo_1_def)
  have c: "create_raw_transaction accepting_lib example_recipient target_send_amount_btc 2
       example_selected example_address (Some ''bitcoin_testnet'') ''p2wpkh''
     = Inl (ValueError (Network_not_recognized ''bitcoin_testnet''))"
    by (simp add: run_defs)
  from a b c malformed_selection wrong_password_load show ?thesis by simp
qed

end
